theory Spec2Isabelle
  imports Main
begin

section \<open>Supply.js: the stage-transition controller of the supply-chain client\<close>

text \<open>
  The component \<^verbatim>\<open>Supply\<close> of \<^verbatim>\<open>src/client/src/Supply.js\<close> loads the catalogue of
  products from a contract (\<^verbatim>\<open>loadBlockchainData\<close>), computes the payment owed for a
  stage transition (\<^verbatim>\<open>calculatePayment\<close>) and submits the transition
  (\<^verbatim>\<open>handleSubmit\<close>). The functions are embedded as HOL functions: the React state
  is a record that each handler returns updated, every call to the contract, the wallet,
  the console and \<^verbatim>\<open>alert\<close> is appended to a list of effects, and every exception is
  a value.
\<close>

subsection \<open>JavaScript errors\<close>

text \<open>An exception carries its \<^verbatim>\<open>message\<close>; \<^verbatim>\<open>TypeError\<close> is what reading a property
  of \<^verbatim>\<open>undefined\<close> throws.\<close>

datatype js_error = Error string | TypeError string

fun message :: "js_error \<Rightarrow> string" where
  "message (Error m) = m"
| "message (TypeError m) = m"

subsection \<open>JavaScript numbers\<close>

text \<open>
  A number of JavaScript is a double. The numbers that the component hands to the
  contract are integral: a finite integer or an infinity (\<^verbatim>\<open>NaN\<close> never gets that far).
  \<open>round_double\<close> is the double nearest to a natural number, ties to the even
  significand of 53 bits; from \<open>2 ^ 1024\<close> on the result is an infinity.
\<close>

datatype js_number = Num int | Infinity | NegInfinity

fun bitlen :: "nat \<Rightarrow> nat" where
  "bitlen n = (if n = 0 then 0 else Suc (bitlen (n div 2)))"

declare bitlen.simps [simp del]

definition round_double :: "nat \<Rightarrow> nat" where
  "round_double n =
     (if n < 2 ^ 53 then n
      else
        let e = bitlen n - 53;
            q = n div 2 ^ e;
            r = n mod 2 ^ e;
            half = 2 ^ (e - 1)
        in (if half < r \<or> (r = half \<and> odd q) then q + 1 else q) * 2 ^ e)"

definition number_of :: "bool \<Rightarrow> nat \<Rightarrow> js_number" where
  "number_of negative n =
     (let r = round_double n
      in if 2 ^ 1024 \<le> r then (if negative then NegInfinity else Infinity)
         else Num (if negative then - int r else int r))"

subsection \<open>Decimal digits and big numbers\<close>

text \<open>
  Modelled from the spec: the big numbers of the web3 library (\<^verbatim>\<open>BN.js\<close>), whose code
  is not under \<^verbatim>\<open>src/\<close>; the spec (4.1) asks for unsigned arbitrary-precision integers.
  They are unbounded integers, here \<^typ>\<open>int\<close> and \<^typ>\<open>nat\<close>. \<open>nat_str\<close> is
  \<^verbatim>\<open>toString(10)\<close> on a magnitude, \<open>bn_str\<close> the same on a signed number, and
  \<open>digits_val\<close> is \<^verbatim>\<open>new BN(s, 10)\<close> on a string of decimal digits (character code
  minus 48, most significant digit first).
\<close>

definition is_digit :: "char \<Rightarrow> bool" where
  "is_digit c \<longleftrightarrow> 48 \<le> (of_char c :: nat) \<and> (of_char c :: nat) \<le> 57"

definition digit_val :: "char \<Rightarrow> nat" where
  "digit_val c = of_char c - 48"

definition digit_char :: "nat \<Rightarrow> char" where
  "digit_char d = char_of (48 + d)"

fun nat_str :: "nat \<Rightarrow> string" where
  "nat_str n = (if n < 10 then [digit_char n] else nat_str (n div 10) @ [digit_char (n mod 10)])"

declare nat_str.simps [simp del]

definition bn_str :: "int \<Rightarrow> string" where
  "bn_str i = (if i < 0 then CHR ''-'' # nat_str (nat (- i)) else nat_str (nat i))"

definition digits_val :: "string \<Rightarrow> nat" where
  "digits_val s = foldl (\<lambda>a c. 10 * a + digit_val c) 0 s"

subsection \<open>The conversions of the web3 library\<close>

text \<open>
  Modelled from the spec: \<^verbatim>\<open>Web3.utils.toBN\<close>, \<^verbatim>\<open>Web3.utils.toWei\<close> and
  \<^verbatim>\<open>Web3.utils.fromWei\<close> belong to the web3 library that \<^verbatim>\<open>Supply.js\<close> imports; their
  code is not under \<^verbatim>\<open>src/\<close>. The spec (4.1) describes the conversion as the scaling
  of a decimal price to the ledger's minor units with the fixed exponent 18, failing on
  a price that is not a well-formed decimal number. The definitions below follow that
  description along the steps of the library's unit conversion (web3 1.x), for the unit
  \<^verbatim>\<open>'ether'\<close>. The messages of the library's errors are abbreviated.
\<close>

definition base :: nat where
  "base = 10 ^ 18"

definition baseLength :: nat where
  "baseLength = 18"

text \<open>
  Modelled from the spec: \<open>toBN\<close> on a string in decimal notation, an optional minus sign
  and at least one digit, which is how the ledger's unsigned integers and the result of
  \<open>toWei\<close> arrive. The library also reads hexadecimal notation; that part of it is not
  modelled, and every other string is reported as an invalid number.
\<close>

definition toBN :: "string \<Rightarrow> js_error + int" where
  "toBN s =
     (let negative = (take 1 s = ''-'');
          stringArg = (if negative then drop 1 s else s)
      in if stringArg \<noteq> [] \<and> list_all is_digit stringArg
         then Inr ((if negative then - 1 else 1) * int (digits_val stringArg))
         else Inl (Error ''invalid number value''))"

text \<open>
  Modelled from the spec: \<open>toWei\<close> on a string, unit \<^verbatim>\<open>'ether'\<close>. The input must consist
  of digits and dots after an optional minus sign; it is split at the dot into a whole
  and a fractional part, an empty part counts as \<^verbatim>\<open>'0'\<close>, the fraction is padded with
  zeros on the right to 18 digits, and the result is \<open>whole * 10^18 + fraction\<close>, printed
  in decimal. More than one dot, a lone dot and more than 18 fractional digits are
  errors.
\<close>

definition toWei :: "string \<Rightarrow> js_error + string" where
  "toWei etherInput =
     (let negative = (take 1 etherInput = ''-'');
          ether = (if negative then drop 1 etherInput else etherInput)
      in if ether = [] \<or> \<not> list_all (\<lambda>c. is_digit c \<or> c = CHR ''.'') ether
         then Inl (Error ''invalid number value'')
         else if ether = ''.'' then Inl (Error ''invalid value'')
         else if 1 < count_list ether CHR ''.'' then Inl (Error ''too many decimal points'')
         else
           let comps0 = takeWhile (\<lambda>c. c \<noteq> CHR ''.'') ether;
               comps1 = drop 1 (dropWhile (\<lambda>c. c \<noteq> CHR ''.'') ether);
               whole = (if comps0 = [] then ''0'' else comps0);
               fraction = (if comps1 = [] then ''0'' else comps1)
           in if baseLength < length fraction
              then Inl (Error ''too many decimal places'')
              else
                let padded = fraction @ replicate (baseLength - length fraction) CHR ''0'';
                    wei = int (digits_val whole) * int base + int (digits_val padded)
                in Inr (bn_str (if negative then wei * (- 1) else wei)))"

text \<open>
  Modelled from the spec: \<open>fromWei\<close> on a string, unit \<^verbatim>\<open>'ether'\<close>. The fraction
  \<open>wei mod 10^18\<close> is printed, padded with zeros on the left to 18 digits, and its
  trailing zeros are removed (the library keeps the group \<^verbatim>\<open>([0-9]*[1-9]|0)\<close> of the
  padded fraction: everything up to the last non-zero digit, or a single \<^verbatim>\<open>0\<close>); the
  result is the whole part, followed by a dot and the fraction unless the fraction is
  \<^verbatim>\<open>'0'\<close>.
\<close>

definition strip_zeros :: "string \<Rightarrow> string" where
  "strip_zeros fraction =
     (let kept = rev (dropWhile (\<lambda>c. c = CHR ''0'') (rev fraction))
      in if kept = [] then ''0'' else kept)"

definition fromWei :: "string \<Rightarrow> js_error + string" where
  "fromWei weiInput =
     (case toBN weiInput of
        Inl e \<Rightarrow> Inl e
      | Inr wei0 \<Rightarrow>
          let negative = (wei0 < 0);
              wei = nat (if negative then wei0 * (- 1) else wei0);
              fraction0 = nat_str (wei mod base);
              fraction1 = replicate (baseLength - length fraction0) CHR ''0'' @ fraction0;
              fraction = strip_zeros fraction1;
              whole = nat_str (wei div base);
              v = whole @ (if fraction = ''0'' then [] else CHR ''.'' # fraction)
          in Inr (if negative then CHR ''-'' # v else v))"

subsection \<open>calculatePayment\<close>

text \<open>
  \<^verbatim>\<open>calculatePayment(price, quantity)\<close>: the price in major units is scaled by \<open>toWei\<close>,
  multiplied by the quantity as big numbers, and printed. \<^verbatim>\<open>price.toString()\<close> is the
  identity on the string that \<^verbatim>\<open>handleSubmit\<close> passes.
\<close>

definition calculatePayment :: "string \<Rightarrow> string \<Rightarrow> js_error + string" where
  "calculatePayment price quantity =
     (case toWei price of
        Inl e \<Rightarrow> Inl e
      | Inr priceInWei \<Rightarrow>
          (case toBN priceInWei of
             Inl e \<Rightarrow> Inl e
           | Inr a \<Rightarrow>
               (case toBN quantity of
                  Inl e \<Rightarrow> Inl e
                | Inr b \<Rightarrow> Inr (bn_str (a * b)))))"

text \<open>
  The spec's \<^verbatim>\<open>scaleToMinorUnits\<close>: a decimal price with the whole part \<open>w\<close> and the
  fractional digits \<open>f\<close> (none when \<open>f\<close> is empty) denotes the number
  \<open>digits_val (w @ f) / 10 ^ length f\<close>; with the ledger's exponent 18 it is
  \<open>digits_val (w @ f) * 10 ^ (18 - length f)\<close> minor units. \<open>decimal w f\<close> is the price
  as it is written.
\<close>

definition decimal :: "string \<Rightarrow> string \<Rightarrow> string" where
  "decimal w f = (if f = [] then w else w @ CHR ''.'' # f)"

definition scaleToMinorUnits :: "string \<Rightarrow> string \<Rightarrow> nat" where
  "scaleToMinorUnits w f = digits_val (w @ f) * 10 ^ (18 - length f)"

subsection \<open>The contract, the wallet and the effects of the component\<close>

text \<open>
  A product as \<^verbatim>\<open>MedicineStock(id).call()\<close> returns it. web3 delivers an unsigned
  integer of the contract as its decimal string: the record keeps the number, and
  \<open>nat_str\<close> gives the string where the code reads the field.
\<close>

record product =
  product_id :: nat
  name :: string
  destinationCompanyName :: string
  price :: nat
  quantity :: nat
  expirationDate :: nat
  timestamp :: nat

text \<open>The options of \<^verbatim>\<open>send\<close> (\<^verbatim>\<open>from\<close>, \<^verbatim>\<open>gas\<close>, \<^verbatim>\<open>value\<close>) and the receipt it
  resolves to. \<^verbatim>\<open>accounts[0]\<close> of an empty list is \<^verbatim>\<open>undefined\<close>, here \<open>None\<close>.\<close>

record tx_options =
  from' :: "string option"
  gas :: nat
  value' :: string

record receipt =
  transactionHash :: string

text \<open>
  The contract is outside the component. What each of its calls answers is a parameter.
  \<open>methods c n\<close> is the property read \<^verbatim>\<open>supplyChain.methods[n]\<close>: \<open>None\<close> when the read
  gives \<^verbatim>\<open>undefined\<close>, else the value read, with what \<^verbatim>\<open>method(productId).estimateGas\<close>
  and \<^verbatim>\<open>method(productId).send\<close> answer for an argument. The read finds the methods of
  the contract and also the properties that every JavaScript object inherits (such as
  \<^verbatim>\<open>toString\<close>); for a value that is no method of the contract both answers are the
  \<^verbatim>\<open>TypeError\<close> of the failed call. \<open>medicineCtr\<close>, \<open>MedicineStock\<close> and \<open>showStage\<close> are
  the answers of the three \<^verbatim>\<open>call()\<close>s the component makes.
\<close>

record contract_method =
  estimateGas :: "js_number \<Rightarrow> string option \<Rightarrow> js_error + nat"
  send :: "js_number \<Rightarrow> tx_options \<Rightarrow> js_error + receipt"

record contract =
  medicineCtr :: "js_error + nat"
  MedicineStock :: "js_number \<Rightarrow> js_error + product"
  showStage :: "js_number \<Rightarrow> js_error + string"
  methods :: "string \<Rightarrow> contract_method option"

text \<open>
  The browser side: \<^verbatim>\<open>web3.eth.getAccounts()\<close>, \<^verbatim>\<open>web3.eth.net.getId()\<close>, the contract
  that \<^verbatim>\<open>SupplyChainABI.networks[networkId]\<close> binds on a network (\<open>None\<close> when the
  artifact has no entry for it), and the wallet's answer to \<^verbatim>\<open>eth_requestAccounts\<close>.
  A missing \<^verbatim>\<open>window.web3\<close> or \<^verbatim>\<open>window.ethereum\<close> is one of the errors of the call
  that reads it.
\<close>

record browser =
  getAccounts :: "js_error + string list"
  getId :: "js_error + nat"
  networks :: "nat \<Rightarrow> contract option"
  requestAccounts :: "js_error + string list"

text \<open>Everything the component does to the outside, in the order it does it.\<close>

datatype effect =
    GetAccounts
  | GetId
  | Call string "js_number list"
  | RequestAccounts
  | EstimateGas string js_number "string option"
  | Send string js_number tx_options
  | Alert string
  | ConsoleError string js_error
  | ConsoleLog string receipt

fun is_write :: "effect \<Rightarrow> bool" where
  "is_write (Send n i opts) = True"
| "is_write e = False"

fun is_call :: "effect \<Rightarrow> bool" where
  "is_call (Call n args) = True"
| "is_call e = False"

fun is_alert :: "effect \<Rightarrow> bool" where
  "is_alert (Alert m) = True"
| "is_alert e = False"

subsection \<open>The state of the component\<close>

text \<open>
  The \<^verbatim>\<open>useState\<close> variables. \<^verbatim>\<open>medData\<close> and \<^verbatim>\<open>medStage\<close> are JavaScript objects
  with integer keys, which \<^verbatim>\<open>Object.keys\<close> lists in ascending order: an association
  list sorted by key, where \<open>obj_set\<close> is the assignment \<^verbatim>\<open>obj[k] = v\<close>. The text of
  the id field is whatever the user typed, a JavaScript string: the list of its UTF-16
  code units. \<open>code_units\<close> gives the code units of a string of ASCII characters.
\<close>

type_synonym js_string = "nat list"

definition code_units :: "string \<Rightarrow> js_string" where
  "code_units s = map of_char s"

fun obj_set :: "(nat \<times> 'v) list \<Rightarrow> nat \<Rightarrow> 'v \<Rightarrow> (nat \<times> 'v) list" where
  "obj_set [] k v = [(k, v)]"
| "obj_set ((k', v') # rest) k v =
     (if k = k' then (k, v) # rest
      else if k < k' then (k, v) # (k', v') # rest
      else (k', v') # obj_set rest k v)"

definition obj_keys :: "(nat \<times> 'v) list \<Rightarrow> nat list" where
  "obj_keys obj = map fst obj"

record view_state =
  currentAccount :: "string option"
  loader :: bool
  supplyChain :: "contract option"
  medData :: "(nat \<times> product) list"
  medStage :: "(nat \<times> string) list"
  id' :: js_string
  error :: string

text \<open>What the component renders: the loading notice while \<^verbatim>\<open>loader\<close> is set, else
  the page with one table row per key of \<^verbatim>\<open>medData\<close> (only the keys are kept here).\<close>

datatype view = Loading | Catalog "nat list"

definition render :: "view_state \<Rightarrow> view" where
  "render s = (if loader s then Loading else Catalog (obj_keys (medData s)))"

subsection \<open>loadBlockchainData\<close>

text \<open>\<^verbatim>\<open>accounts[0]\<close>: the first account, \<^verbatim>\<open>undefined\<close> (\<open>None\<close>) for an empty list.\<close>

definition first_account :: "string list \<Rightarrow> string option" where
  "first_account accounts = (case accounts of [] \<Rightarrow> None | a # rest \<Rightarrow> Some a)"

text \<open>
  The loop \<^verbatim>\<open>for (let i = 0; i < medCtr; i++)\<close>: two reads per id \<open>i + 1\<close>, the product
  and then its stage, each stored under the id. A read that throws ends the loop with
  the exception. The result comes with the calls made. The counter arrives as a decimal
  string, which the comparison reads as a number: here it is the number.
\<close>

function load_loop ::
  "contract \<Rightarrow> nat \<Rightarrow> nat \<Rightarrow> (nat \<times> product) list \<Rightarrow> (nat \<times> string) list \<Rightarrow>
     (js_error + (nat \<times> product) list \<times> (nat \<times> string) list) \<times> effect list" where
  "load_loop c medCtr i med medStage' =
     (if i < medCtr then
        let medId = i + 1 in
        (case MedicineStock c (Num (int medId)) of
           Inl e \<Rightarrow> (Inl e, [Call ''MedicineStock'' [Num (int medId)]])
         | Inr p \<Rightarrow>
             (case showStage c (Num (int medId)) of
                Inl e \<Rightarrow> (Inl e, [Call ''MedicineStock'' [Num (int medId)], Call ''showStage'' [Num (int medId)]])
              | Inr st \<Rightarrow>
                  (let r = load_loop c medCtr (i + 1) (obj_set med medId p) (obj_set medStage' medId st)
                   in (fst r, Call ''MedicineStock'' [Num (int medId)] # Call ''showStage'' [Num (int medId)] # snd r))))
      else (Inr (med, medStage'), []))"
  by pat_completeness auto
termination
  by (relation "measure (\<lambda>(c, medCtr, i, med, medStage'). medCtr - i)") auto

declare load_loop.simps [simp del]

text \<open>
  \<^verbatim>\<open>loadBlockchainData\<close>. The function has no \<^verbatim>\<open>try\<close>: an exception of a call leaves
  it at once, with the state as set so far (first component \<open>Some e\<close>). When the artifact
  has no entry for the network, the function alerts and returns; \<^verbatim>\<open>loader\<close> stays set.
\<close>

definition loadBlockchainData :: "browser \<Rightarrow> view_state \<Rightarrow> js_error option \<times> view_state \<times> effect list" where
  "loadBlockchainData w s =
     (let s1 = s\<lparr>loader := True\<rparr> in
      case getAccounts w of
        Inl e \<Rightarrow> (Some e, s1, [GetAccounts])
      | Inr accounts \<Rightarrow>
          let account = first_account accounts;
              s2 = s1\<lparr>currentAccount := account\<rparr>
          in (case getId w of
                Inl e \<Rightarrow> (Some e, s2, [GetAccounts, GetId])
              | Inr networkId \<Rightarrow>
                  (case networks w networkId of
                     Some supplychain \<Rightarrow>
                       let s3 = s2\<lparr>supplyChain := Some supplychain\<rparr> in
                       (case medicineCtr supplychain of
                          Inl e \<Rightarrow> (Some e, s3, [GetAccounts, GetId, Call ''medicineCtr'' []])
                        | Inr medCtr \<Rightarrow>
                            (case load_loop supplychain medCtr 0 [] [] of
                               (Inl e, reads) \<Rightarrow>
                                 (Some e, s3, [GetAccounts, GetId, Call ''medicineCtr'' []] @ reads)
                             | (Inr (med, medStage'), reads) \<Rightarrow>
                                 (None,
                                  s3\<lparr>medData := med, medStage := medStage', loader := False\<rparr>,
                                  [GetAccounts, GetId, Call ''medicineCtr'' []] @ reads)))
                   | None \<Rightarrow>
                       (None, s2,
                        [GetAccounts, GetId,
                         Alert ''The smart contract is not deployed to the current network'']))))"

subsection \<open>handleSubmit\<close>

text \<open>
  \<^verbatim>\<open>parseInt(id, 10)\<close>: leading white space is skipped, a sign is read, and the longest
  run of decimal digits that follows is the number, as the double nearest to it;
  \<open>None\<close> is \<^verbatim>\<open>NaN\<close>, the result when no digit follows. White space is what JavaScript
  trims: tab, line feed, vertical tab, form feed, carriage return, space, no-break space,
  the other space separators of Unicode, the line and paragraph separators and the
  byte order mark. (Beyond 20 significant digits the language lets an implementation
  read the further digits as zeros; the digits are read as they are here.)
\<close>

definition is_space :: "nat \<Rightarrow> bool" where
  "is_space c \<longleftrightarrow>
     c \<in> set [0x09, 0x0A, 0x0B, 0x0C, 0x0D, 0x20, 0xA0, 0x1680,
              0x2000, 0x2001, 0x2002, 0x2003, 0x2004, 0x2005, 0x2006, 0x2007, 0x2008, 0x2009, 0x200A,
              0x2028, 0x2029, 0x202F, 0x205F, 0x3000, 0xFEFF]"

definition is_digit_unit :: "nat \<Rightarrow> bool" where
  "is_digit_unit c \<longleftrightarrow> 48 \<le> c \<and> c \<le> 57"

definition units_val :: "js_string \<Rightarrow> nat" where
  "units_val z = foldl (\<lambda>a c. 10 * a + (c - 48)) 0 z"

definition parseInt :: "js_string \<Rightarrow> js_number option" where
  "parseInt s =
     (let t = dropWhile is_space s;
          negative = (take 1 t = [45]);
          u = (if take 1 t = [45] \<or> take 1 t = [43] then drop 1 t else t);
          z = takeWhile is_digit_unit u
      in if z = [] then None else Some (number_of negative (units_val z)))"

text \<open>
  The \<^verbatim>\<open>try\<close> block of \<^verbatim>\<open>handleSubmit\<close>: the value is the receipt of \<^verbatim>\<open>send\<close>, or the
  exception that left the block. The inner \<^verbatim>\<open>try\<close> around \<^verbatim>\<open>estimateGas\<close> replaces a
  failed estimate by 3000000.
\<close>

definition handleSubmit_try :: "browser \<Rightarrow> view_state \<Rightarrow> string \<Rightarrow> (js_error + receipt) \<times> effect list" where
  "handleSubmit_try w s methodName =
     (case parseInt (id' s) of
        None \<Rightarrow> (Inl (Error ''Invalid Product ID''), [])
      | Some productId \<Rightarrow>
     (case supplyChain s of
        None \<Rightarrow> (Inl (TypeError ''Cannot read properties of undefined''), [])
      | Some c \<Rightarrow>
     (case methods c methodName of
        None \<Rightarrow>
          (Inl (Error (''Method '' @ methodName @ '' does not exist on the smart contract.'')), [])
      | Some method \<Rightarrow>
     (case MedicineStock c productId of
        Inl e \<Rightarrow> (Inl e, [Call ''MedicineStock'' [productId]])
      | Inr product \<Rightarrow>
     (case fromWei (nat_str (price product)) of
        Inl e \<Rightarrow> (Inl e, [Call ''MedicineStock'' [productId]])
      | Inr price' \<Rightarrow>
     (case calculatePayment price' (nat_str (quantity product)) of
        Inl e \<Rightarrow> (Inl e, [Call ''MedicineStock'' [productId]])
      | Inr paymentAmount \<Rightarrow>
     (case requestAccounts w of
        Inl e \<Rightarrow> (Inl e, [Call ''MedicineStock'' [productId], RequestAccounts])
      | Inr accounts \<Rightarrow>
          let account = first_account accounts;
              estimate = estimateGas method productId account;
              gasEstimate = (case estimate of Inr g \<Rightarrow> g | Inl e \<Rightarrow> 3000000);
              logged = (case estimate of Inr g \<Rightarrow> [] | Inl e \<Rightarrow> [ConsoleError ''Gas estimation failed:'' e]);
              options = \<lparr>from' = account, gas = gasEstimate, value' = paymentAmount\<rparr>
          in (send method productId options,
              [Call ''MedicineStock'' [productId], RequestAccounts,
               EstimateGas methodName productId account] @ logged @
              [Send methodName productId options]))))))))"

text \<open>
  \<^verbatim>\<open>handleSubmit(event, methodName)\<close>: \<^verbatim>\<open>setError("")\<close>, the \<^verbatim>\<open>try\<close> block, and then
  either the success notice and \<^verbatim>\<open>setId("")\<close>, or the \<^verbatim>\<open>catch\<close> with its
  \<^verbatim>\<open>setError\<close>. The state returned is the one React holds after the handler; \<open>s\<close> is
  the state of the render whose form was submitted. \<^verbatim>\<open>event.preventDefault()\<close> acts on
  the event only.
\<close>

definition handleSubmit :: "browser \<Rightarrow> view_state \<Rightarrow> string \<Rightarrow> view_state \<times> effect list" where
  "handleSubmit w s methodName =
     (case handleSubmit_try w s methodName of
        (Inr result, effects) \<Rightarrow>
          (s\<lparr>error := [], id' := []\<rparr>,
           effects @
           [ConsoleLog (''Successfully called '' @ methodName @ '' with result:'') result,
            Alert (''Successfully called '' @ methodName @ '' with result: '' @ transactionHash result)])
      | (Inl e, effects) \<Rightarrow>
          (s\<lparr>error := ''Error in '' @ methodName @ '': '' @ message e\<rparr>,
           effects @ [ConsoleError (''Error in '' @ methodName @ '':'') e]))"




subsection \<open>A sample ledger\<close>

text \<open>
  A contract with one product, of price 2000000000000000000 minor units and quantity 5,
  used to run the functions on concrete inputs. For an id that was never assigned the
  getter of the contract's mapping answers the empty product; a negative or infinite
  id is refused. The contract has the three methods that \<^verbatim>\<open>loadBlockchainData\<close> calls
  and the four that the forms name; a read of an inherited property finds a value that
  is no method.
\<close>

definition sample_product :: product where
  "sample_product =
     \<lparr>product_id = 1, name = ''Paracetamol'', destinationCompanyName = ''City Pharmacy'',
      price = 2000000000000000000, quantity = 5,
      expirationDate = 1767225600, timestamp = 1735689600\<rparr>"

definition empty_product :: product where
  "empty_product =
     \<lparr>product_id = 0, name = [], destinationCompanyName = [],
      price = 0, quantity = 0, expirationDate = 0, timestamp = 0\<rparr>"

definition sample_method :: contract_method where
  "sample_method =
     \<lparr>estimateGas = (\<lambda>i account. Inr 90000),
      send = (\<lambda>i options. Inr \<lparr>transactionHash = ''0x5e''\<rparr>)\<rparr>"

definition sample_names :: "string list" where
  "sample_names =
     [''medicineCtr'', ''MedicineStock'', ''showStage'',
      ''startManufacturing'', ''startShipping'', ''startDistribution'', ''storeInWarehouse'']"

definition inherited_names :: "string list" where
  "inherited_names =
     [''constructor'', ''toString'', ''toLocaleString'', ''valueOf'', ''hasOwnProperty'',
      ''isPrototypeOf'', ''propertyIsEnumerable'', ''__proto__'', ''__defineGetter__'',
      ''__defineSetter__'', ''__lookupGetter__'', ''__lookupSetter__'']"

definition not_a_method :: contract_method where
  "not_a_method =
     \<lparr>estimateGas = (\<lambda>i account. Inl (TypeError ''method(...).estimateGas is not a function'')),
      send = (\<lambda>i options. Inl (TypeError ''method(...).send is not a function''))\<rparr>"

definition sample_table :: "contract_method \<Rightarrow> string \<Rightarrow> contract_method option" where
  "sample_table method n =
     (if n \<in> set sample_names then Some method
      else if n \<in> set inherited_names then Some not_a_method
      else None)"

definition sample_contract :: contract where
  "sample_contract =
     \<lparr>medicineCtr = Inr 1,
      MedicineStock = (\<lambda>i. case i of
         Num k \<Rightarrow> if 0 \<le> k then Inr (if k = 1 then sample_product else empty_product)
                  else Inl (Error ''invalid number value'')
       | Infinity \<Rightarrow> Inl (Error ''invalid number value'')
       | NegInfinity \<Rightarrow> Inl (Error ''invalid number value'')),
      showStage = (\<lambda>i. Inr ''Medicine Ordered''),
      methods = sample_table sample_method\<rparr>"

definition sample_browser :: browser where
  "sample_browser =
     \<lparr>getAccounts = Inr [''0xA1''], getId = Inr 5777,
      networks = (\<lambda>n. if n = 5777 then Some sample_contract else None),
      requestAccounts = Inr [''0xA1'']\<rparr>"

text \<open>The state of the component when it mounts, and the state after the sample ledger
  is loaded, with an id typed into the form.\<close>

definition initial_state :: view_state where
  "initial_state =
     \<lparr>currentAccount = Some [], loader = True, supplyChain = None,
      medData = [], medStage = [], id' = [], error = []\<rparr>"

definition loaded_state :: "string \<Rightarrow> view_state" where
  "loaded_state typed =
     \<lparr>currentAccount = Some ''0xA1'', loader = False, supplyChain = Some sample_contract,
      medData = [(1, sample_product)], medStage = [(1, ''Medicine Ordered'')],
      id' = code_units typed, error = []\<rparr>"

text \<open>A browser connected to a network for which the artifact has no entry.\<close>

definition other_network :: browser where
  "other_network = sample_browser\<lparr>getId := Inr 1\<rparr>"

text \<open>A browser whose contract reports \<open>n\<close> products.\<close>

definition ledger_of_count :: "nat \<Rightarrow> browser" where
  "ledger_of_count n =
     sample_browser\<lparr>networks := (\<lambda>i. Some (sample_contract\<lparr>medicineCtr := Inr n\<rparr>))\<rparr>"


text \<open>A contract whose gas estimate fails (the call would revert), and one whose
  \<^verbatim>\<open>send\<close> is rejected.\<close>

definition no_estimate :: contract where
  "no_estimate =
     sample_contract\<lparr>methods :=
        sample_table (sample_method\<lparr>estimateGas := (\<lambda>i account. Inl (Error ''execution reverted''))\<rparr>)\<rparr>"

definition rejecting :: contract where
  "rejecting =
     sample_contract\<lparr>methods :=
        sample_table (sample_method\<lparr>send := (\<lambda>i options. Inl (Error ''User denied transaction signature''))\<rparr>)\<rparr>"

section \<open>Properties\<close>

subsection \<open>Digits\<close>

lemma digit_val_digit_char: "d < 10 \<Longrightarrow> digit_val (digit_char d) = d"
  by (simp add: digit_val_def digit_char_def)

lemma is_digit_digit_char: "d < 10 \<Longrightarrow> is_digit (digit_char d)"
  by (simp add: is_digit_def digit_char_def)

lemma is_digit_not_dot: "is_digit c \<Longrightarrow> c \<noteq> CHR ''.''"
  by (auto simp: is_digit_def)

lemma is_digit_not_minus: "is_digit c \<Longrightarrow> c \<noteq> CHR ''-''"
  by (auto simp: is_digit_def)

lemma is_digit_zero: "is_digit CHR ''0''"
  by (simp add: is_digit_def)

lemma digit_val_zero: "digit_val CHR ''0'' = 0"
  by (simp add: digit_val_def)

lemma foldl_digits: "foldl (\<lambda>a c. 10 * a + digit_val c) a s = a * 10 ^ length s + foldl (\<lambda>a c. 10 * a + digit_val c) 0 s"
proof (induction s arbitrary: a)
  case Nil
  show ?case by simp
next
  case (Cons c s)
  have "foldl (\<lambda>a c. 10 * a + digit_val c) a (c # s) = foldl (\<lambda>a c. 10 * a + digit_val c) (10 * a + digit_val c) s"
    by simp
  also have "\<dots> = (10 * a + digit_val c) * 10 ^ length s + foldl (\<lambda>a c. 10 * a + digit_val c) 0 s"
    by (rule Cons.IH)
  also have "foldl (\<lambda>a c. 10 * a + digit_val c) 0 (c # s) = digit_val c * 10 ^ length s + foldl (\<lambda>a c. 10 * a + digit_val c) 0 s"
    using Cons.IH [of "digit_val c"] by simp
  ultimately show ?case by (simp add: algebra_simps)
qed

lemma digits_val_append: "digits_val (s @ t) = digits_val s * 10 ^ length t + digits_val t"
  unfolding digits_val_def foldl_append by (rule foldl_digits)

lemma digits_val_single: "digits_val [c] = digit_val c"
  by (simp add: digits_val_def)

lemma digits_val_zeros: "digits_val (replicate k CHR ''0'') = 0"
  by (induction k) (simp_all add: digits_val_def digit_val_zero)

lemma digits_val_nat_str: "digits_val (nat_str n) = n"
proof (induction n rule: nat_str.induct)
  case (1 n)
  show ?case
  proof (cases "n < 10")
    case True
    then show ?thesis by (simp add: nat_str.simps [of n] digits_val_single digit_val_digit_char)
  next
    case False
    with 1 have "digits_val (nat_str (n div 10)) = n div 10" by simp
    with False show ?thesis
      by (simp add: nat_str.simps [of n] digits_val_append digits_val_single digit_val_digit_char)
  qed
qed

lemma nat_str_digits: "list_all is_digit (nat_str n)"
proof (induction n rule: nat_str.induct)
  case (1 n)
  then show ?case
    by (cases "n < 10") (simp_all add: nat_str.simps [of n] is_digit_digit_char)
qed

lemma nat_str_nonempty: "nat_str n \<noteq> []"
  by (simp add: nat_str.simps [of n])

lemma length_nat_str: "0 < k \<Longrightarrow> n < 10 ^ k \<Longrightarrow> length (nat_str n) \<le> k"
proof (induction n arbitrary: k rule: nat_str.induct)
  case (1 n)
  show ?case
  proof (cases "n < 10")
    case True
    with 1(2) show ?thesis by (simp add: nat_str.simps [of n])
  next
    case False
    with 1(2,3) have k: "1 < k" by (cases "k = 1") auto
    then obtain j where j: "k = Suc j" "0 < j" by (cases k) auto
    with 1(3) have "n div 10 < 10 ^ j" by (simp add: less_mult_imp_div_less mult.commute)
    with 1(1) [OF False j(2)] have "length (nat_str (n div 10)) \<le> j" by simp
    with False j show ?thesis by (simp add: nat_str.simps [of n])
  qed
qed

lemma digit_char_0: "digit_char 0 = CHR ''0''"
proof -
  have "of_char (CHR ''0'') = (48::nat)" by simp
  then have "char_of (48::nat) = char_of (of_char CHR ''0'' :: nat)" by simp
  then show ?thesis by (simp add: digit_char_def del: of_char_Char)
qed

lemma take1_nat_str: "take (Suc 0) (nat_str n) \<noteq> ''-''"
proof -
  obtain c cs where s: "nat_str n = c # cs" using nat_str_nonempty [of n] by (cases "nat_str n") auto
  with nat_str_digits [of n] have "is_digit c" by simp
  with s show ?thesis by (auto dest: is_digit_not_minus)
qed

lemma toBN_nat_str: "toBN (nat_str n) = Inr (int n)"
  by (simp add: toBN_def Let_def take1_nat_str nat_str_nonempty nat_str_digits digits_val_nat_str)

lemma bn_str_int: "bn_str (int n) = nat_str n"
  by (simp add: bn_str_def)

lemma takeWhile_zeros: "takeWhile (\<lambda>c. c = z) xs = replicate (length (takeWhile (\<lambda>c. c = z) xs)) z"
  by (induction xs) auto

lemma strip_split:
  "s = rev (dropWhile (\<lambda>c. c = z) (rev s)) @ replicate (length s - length (dropWhile (\<lambda>c. c = z) (rev s))) z"
proof -
  let ?t = "takeWhile (\<lambda>c. c = z) (rev s)" and ?d = "dropWhile (\<lambda>c. c = z) (rev s)"
  have "rev s = ?t @ ?d" by simp
  then have "s = rev ?d @ rev ?t" by (metis rev_append rev_rev_ident)
  moreover have "rev ?t = replicate (length ?t) z"
    using takeWhile_zeros [of z "rev s"] by (metis rev_replicate)
  moreover have "length ?t = length s - length ?d"
    using \<open>rev s = ?t @ ?d\<close> by (metis add_diff_cancel_right' length_append length_rev)
  ultimately show ?thesis by simp
qed

lemma dropWhile_rev_Nil:
  assumes "dropWhile (\<lambda>c. c = z) (rev s) = []"
  shows "s = replicate (length s) z"
  using strip_split [of s z] assms by simp

lemma dropWhile_rev_single:
  "rev (dropWhile (\<lambda>c. c = z) (rev s)) \<noteq> [z]"
proof
  assume "rev (dropWhile (\<lambda>c. c = z) (rev s)) = [z]"
  then have "dropWhile (\<lambda>c. c = z) (rev s) = [z]" by (simp add: rev_singleton_conv)
  then have "dropWhile (\<lambda>c. c = z) (rev s) \<noteq> [] \<and> hd (dropWhile (\<lambda>c. c = z) (rev s)) = z" by simp
  then show False using hd_dropWhile [of "\<lambda>c. c = z" "rev s"] by blast
qed

lemma digit_val_0_char:
  assumes "is_digit c" and "digit_val c = 0"
  shows "c = CHR ''0''"
proof -
  from assms have "of_char c = (48::nat)" by (simp add: is_digit_def digit_val_def)
  then have "char_of (of_char c :: nat) = char_of (48::nat)" by simp
  then have "c = digit_char 0" by (simp add: digit_char_def)
  then show ?thesis by (simp only: digit_char_0)
qed

lemma strip_zeros_zero:
  assumes "digits_val s = 0" and "list_all is_digit s"
  shows "dropWhile (\<lambda>c. c = CHR ''0'') (rev s) = []"
  using assms
proof (induction s rule: rev_induct)
  case Nil
  show ?case by simp
next
  case (snoc c s)
  from snoc.prems have v: "digits_val s * 10 + digit_val c = 0"
    by (simp add: digits_val_append digits_val_single)
  then have "digit_val c = 0" and "digits_val s = 0" by simp_all
  moreover from snoc.prems have "is_digit c" "list_all is_digit s" by simp_all
  ultimately have "c = CHR ''0''" and "dropWhile (\<lambda>c. c = CHR ''0'') (rev s) = []"
    using snoc.IH by (simp_all add: digit_val_0_char del: dropWhile_eq_Nil_conv)
  then show ?case by (simp del: dropWhile_eq_Nil_conv)
qed

lemma strip_zeros_cases:
  assumes "list_all is_digit s"
  shows "strip_zeros s = (if digits_val s = 0 then ''0'' else rev (dropWhile (\<lambda>c. c = CHR ''0'') (rev s)))"
proof (cases "digits_val s = 0")
  case True
  with assms show ?thesis by (simp add: strip_zeros_def strip_zeros_zero del: dropWhile_eq_Nil_conv)
next
  case False
  have "dropWhile (\<lambda>c. c = CHR ''0'') (rev s) \<noteq> []"
  proof
    assume "dropWhile (\<lambda>c. c = CHR ''0'') (rev s) = []"
    then have "s = replicate (length s) CHR ''0''" by (rule dropWhile_rev_Nil)
    then have "digits_val s = digits_val (replicate (length s) CHR ''0'')" by simp
    with False show False by (simp only: digits_val_zeros)
  qed
  with False show ?thesis by (simp add: strip_zeros_def del: dropWhile_eq_Nil_conv)
qed

lemma strip_zeros_pad:
  "rev (dropWhile (\<lambda>c. c = CHR ''0'') (rev s)) @
     replicate (length s - length (rev (dropWhile (\<lambda>c. c = CHR ''0'') (rev s)))) CHR ''0'' = s"
  using strip_split [of s "CHR ''0''"] by simp

lemma fromWei_nat_str:
  "fromWei (nat_str p) =
     Inr (nat_str (p div base) @
          (if p mod base = 0 then []
           else CHR ''.'' # rev (dropWhile (\<lambda>c. c = CHR ''0'')
                  (rev (replicate (baseLength - length (nat_str (p mod base))) CHR ''0'' @ nat_str (p mod base))))))"
proof -
  define P where "P = replicate (baseLength - length (nat_str (p mod base))) CHR ''0'' @ nat_str (p mod base)"
  have val: "digits_val P = p mod base"
    by (simp add: P_def digits_val_append digits_val_zeros digits_val_nat_str)
  have dig: "list_all is_digit P"
    using nat_str_digits [of "p mod base"] by (auto simp: P_def list_all_iff is_digit_zero)
  have strip: "strip_zeros P = (if p mod base = 0 then ''0'' else rev (dropWhile (\<lambda>c. c = CHR ''0'') (rev P)))"
    using strip_zeros_cases [OF dig] val by simp
  have ne: "rev (dropWhile (\<lambda>c. c = CHR ''0'') (rev P)) \<noteq> ''0''"
    by (rule dropWhile_rev_single)
  have "fromWei (nat_str p) =
      Inr (nat_str (p div base) @ (if strip_zeros P = ''0'' then [] else CHR ''.'' # strip_zeros P))"
    by (simp add: fromWei_def toBN_nat_str Let_def P_def)
  also have "\<dots> = Inr (nat_str (p div base) @
          (if p mod base = 0 then [] else CHR ''.'' # rev (dropWhile (\<lambda>c. c = CHR ''0'') (rev P))))"
    using ne by (simp add: strip)
  finally show ?thesis by (simp only: P_def)
qed

subsection \<open>toWei on a decimal price, and after fromWei\<close>

lemma digits_no_dot: "list_all is_digit w \<Longrightarrow> x \<in> set w \<Longrightarrow> x \<noteq> CHR ''.''"
  by (auto simp: list_all_iff dest: is_digit_not_dot)

lemma count_dot_digits: "list_all is_digit w \<Longrightarrow> count_list w CHR ''.'' = 0"
  by (induction w) (auto dest: is_digit_not_dot)

lemma take1_digits: "w \<noteq> [] \<Longrightarrow> list_all is_digit w \<Longrightarrow> take (Suc 0) (w @ t) \<noteq> ''-''"
  by (cases w) (auto dest: is_digit_not_minus)

lemma split_whole: "list_all is_digit w \<Longrightarrow> takeWhile (\<lambda>c. c \<noteq> CHR ''.'') (w @ CHR ''.'' # f) = w"
  by (simp add: takeWhile_append2 digits_no_dot)

lemma split_fraction: "list_all is_digit w \<Longrightarrow> dropWhile (\<lambda>c. c \<noteq> CHR ''.'') (w @ CHR ''.'' # f) = CHR ''.'' # f"
  by (simp add: dropWhile_append2 digits_no_dot)

lemma split_whole_only: "list_all is_digit w \<Longrightarrow> takeWhile (\<lambda>c. c \<noteq> CHR ''.'') w = w"
  by (simp add: digits_no_dot)

lemma split_fraction_none: "list_all is_digit w \<Longrightarrow> dropWhile (\<lambda>c. c \<noteq> CHR ''.'') w = []"
  by (simp add: digits_no_dot)

lemma digits_or_dot: "list_all is_digit w \<Longrightarrow> list_all (\<lambda>c. is_digit c \<or> c = CHR ''.'') w"
  by (simp add: list_all_iff)

lemma toWei_whole:
  assumes "w \<noteq> []" and "list_all is_digit w"
  shows "toWei w = Inr (nat_str (digits_val w * base))"
proof -
  have neg: "take (Suc 0) w \<noteq> ''-''" using take1_digits [OF assms, of "[]"] by simp
  have dot: "w \<noteq> ''.''" using assms(2) by (auto dest: is_digit_not_dot)
  have pad: "digits_val (''0'' @ replicate (baseLength - 1) CHR ''0'') = 0"
    using digits_val_zeros [of "Suc (baseLength - 1)"] by simp
  have "toWei w = Inr (bn_str (int (digits_val w) * int base + int (digits_val (''0'' @ replicate (baseLength - 1) CHR ''0''))))"
    using assms neg dot
    by (simp add: toWei_def Let_def digits_or_dot count_dot_digits split_whole_only split_fraction_none baseLength_def)
  also have "\<dots> = Inr (bn_str (int (digits_val w * base)))"
    by (simp only: pad) simp
  finally show ?thesis by (simp only: bn_str_int)
qed

lemma toWei_fraction:
  assumes "w \<noteq> []" and "list_all is_digit w" and "f \<noteq> []" and "list_all is_digit f"
    and "length f \<le> baseLength"
  shows "toWei (w @ CHR ''.'' # f) =
     Inr (nat_str (digits_val w * base + digits_val f * 10 ^ (baseLength - length f)))"
proof -
  let ?e = "w @ CHR ''.'' # f"
  have neg: "take (Suc 0) ?e \<noteq> ''-''" using assms(1,2) by (rule take1_digits)
  have chars: "list_all (\<lambda>c. is_digit c \<or> c = CHR ''.'') ?e"
    using assms(2,4) by (auto simp: list_all_iff)
  have dot: "?e \<noteq> ''.''" using assms(1) by (cases w) auto
  have cnt: "count_list ?e CHR ''.'' = 1"
    using assms(2,4) by (simp add: count_dot_digits)
  have pad: "digits_val (f @ replicate (baseLength - length f) CHR ''0'') = digits_val f * 10 ^ (baseLength - length f)"
    by (simp add: digits_val_append digits_val_zeros)
  have "toWei ?e = Inr (bn_str (int (digits_val w) * int base + int (digits_val (f @ replicate (baseLength - length f) CHR ''0''))))"
    using assms neg chars dot cnt
    by (simp add: toWei_def Let_def split_whole split_fraction)
  also have "\<dots> = Inr (bn_str (int (digits_val w * base + digits_val f * 10 ^ (baseLength - length f))))"
    by (simp only: pad) simp
  finally show ?thesis by (simp only: bn_str_int)
qed

text \<open>A price with more than 18 fractional digits has no value in minor units: \<open>toWei\<close>
  reports an error.\<close>

lemma toWei_too_many_places:
  assumes "w \<noteq> []" and "list_all is_digit w" and "list_all is_digit f"
    and "baseLength < length f"
  shows "toWei (w @ CHR ''.'' # f) = Inl (Error ''too many decimal places'')"
proof -
  let ?e = "w @ CHR ''.'' # f"
  have neg: "take (Suc 0) ?e \<noteq> ''-''" using assms(1,2) by (rule take1_digits)
  have chars: "list_all (\<lambda>c. is_digit c \<or> c = CHR ''.'') ?e"
    using assms(2,3) by (auto simp: list_all_iff)
  have dot: "?e \<noteq> ''.''" using assms(1) by (cases w) auto
  have cnt: "count_list ?e CHR ''.'' = 1"
    using assms(2,3) by (simp add: count_dot_digits)
  have "f \<noteq> []" using assms(4) by auto
  with assms neg chars dot cnt show ?thesis
    by (simp add: toWei_def Let_def split_whole split_fraction)
qed

lemma toWei_fromWei: "fromWei (nat_str p) = Inr s \<Longrightarrow> toWei s = Inr (nat_str p)"
proof -
  assume a: "fromWei (nat_str p) = Inr s"
  define P where "P = replicate (baseLength - length (nat_str (p mod base))) CHR ''0'' @ nat_str (p mod base)"
  define K where "K = rev (dropWhile (\<lambda>c. c = CHR ''0'') (rev P))"
  have s: "s = nat_str (p div base) @ (if p mod base = 0 then [] else CHR ''.'' # K)"
    using a by (simp only: fromWei_nat_str K_def P_def sum.inject)
  have wd: "nat_str (p div base) \<noteq> []" "list_all is_digit (nat_str (p div base))"
    by (rule nat_str_nonempty, rule nat_str_digits)
  have pdm: "p div base * base + p mod base = p" by simp
  show ?thesis
  proof (cases "p mod base = 0")
    case True
    with s have "s = nat_str (p div base)" by simp
    then have "toWei s = Inr (nat_str (digits_val (nat_str (p div base)) * base))"
      using toWei_whole [OF wd] by simp
    with True pdm show ?thesis by (simp add: digits_val_nat_str)
  next
    case False
    have lenP: "length P = baseLength"
    proof -
      have "p mod base < 10 ^ baseLength" by (simp add: base_def baseLength_def)
      then have "length (nat_str (p mod base)) \<le> baseLength"
        by (intro length_nat_str) (simp_all add: baseLength_def)
      then show ?thesis by (simp add: P_def)
    qed
    have val: "digits_val P = p mod base"
      by (simp add: P_def digits_val_append digits_val_zeros digits_val_nat_str)
    have dig: "list_all is_digit P"
      using nat_str_digits [of "p mod base"] by (auto simp: P_def list_all_iff is_digit_zero)
    have KP: "K @ replicate (length P - length K) CHR ''0'' = P"
      unfolding K_def by (rule strip_zeros_pad)
    have Kne: "K \<noteq> []"
    proof
      assume "K = []"
      with KP have "P = replicate (length P) CHR ''0''" by simp
      then have "digits_val P = digits_val (replicate (length P) CHR ''0'')" by simp
      with val False show False by (simp only: digits_val_zeros)
    qed
    have Kdig: "list_all is_digit K"
      using dig by (auto simp: K_def list_all_iff dest: set_dropWhileD)
    have Klen: "length K \<le> baseLength"
      using lenP by (simp add: K_def) (metis length_dropWhile_le length_rev)
    have "digits_val (K @ replicate (length P - length K) CHR ''0'') = digits_val K * 10 ^ (baseLength - length K)"
      by (simp add: digits_val_append digits_val_zeros lenP)
    with KP val have Kval: "digits_val K * 10 ^ (baseLength - length K) = p mod base" by simp
    from s False have "s = nat_str (p div base) @ CHR ''.'' # K" by simp
    then have "toWei s = Inr (nat_str (digits_val (nat_str (p div base)) * base + digits_val K * 10 ^ (baseLength - length K)))"
      using toWei_fraction [OF wd Kne Kdig Klen] by simp
    with Kval pdm show ?thesis by (simp add: digits_val_nat_str)
  qed
qed

subsection \<open>Evaluation on numerals\<close>

lemma char_of_of_char_nat: "of_char c = (n::nat) \<Longrightarrow> char_of n = c"
  by auto

lemma digit_char_eval:
  "digit_char 0 = CHR ''0''" "digit_char (Suc 0) = CHR ''1''" "digit_char 2 = CHR ''2''"
  "digit_char 3 = CHR ''3''" "digit_char 4 = CHR ''4''" "digit_char 5 = CHR ''5''"
  "digit_char 6 = CHR ''6''" "digit_char 7 = CHR ''7''" "digit_char 8 = CHR ''8''"
  "digit_char 9 = CHR ''9''"
  unfolding digit_char_def by (rule char_of_of_char_nat, simp)+

lemmas nat_str_eval =
  nat_str.simps [of 0] nat_str.simps [of "Suc 0"] nat_str.simps [of "numeral k"] digit_char_eval
  for k

lemmas digits_eval = digits_val_def digit_val_def is_digit_def

subsection \<open>calculatePayment\<close>

lemma toBN_digits:
  assumes "q \<noteq> []" and "list_all is_digit q"
  shows "toBN q = Inr (int (digits_val q))"
proof -
  have "take (Suc 0) q \<noteq> ''-''" using take1_digits [OF assms, of "[]"] by simp
  with assms show ?thesis by (simp add: toBN_def Let_def)
qed

lemma toWei_decimal:
  assumes "w \<noteq> []" and "list_all is_digit w" and "list_all is_digit f" and "length f \<le> 18"
  shows "toWei (decimal w f) = Inr (nat_str (scaleToMinorUnits w f))"
proof (cases "f = []")
  case True
  with assms show ?thesis
    by (simp add: decimal_def scaleToMinorUnits_def toWei_whole base_def)
next
  case False
  have "10 ^ length f * 10 ^ (18 - length f) = (10::nat) ^ 18"
    using assms(4) by (simp flip: power_add)
  then have "digits_val (w @ f) * 10 ^ (18 - length f) =
      digits_val w * base + digits_val f * 10 ^ (baseLength - length f)"
    by (simp add: digits_val_append base_def baseLength_def algebra_simps)
  moreover have "toWei (w @ CHR ''.'' # f) =
      Inr (nat_str (digits_val w * base + digits_val f * 10 ^ (baseLength - length f)))"
    using assms False by (intro toWei_fraction) (simp_all add: baseLength_def)
  ultimately show ?thesis using False by (simp add: decimal_def scaleToMinorUnits_def)
qed

lemma calculatePayment_scaled:
  assumes "toWei p = Inr (nat_str a)" and "q \<noteq> []" and "list_all is_digit q"
  shows "calculatePayment p q = Inr (nat_str (a * digits_val q))"
proof -
  have "int a * int (digits_val q) = int (a * digits_val q)" by simp
  then show ?thesis
    using assms by (simp add: calculatePayment_def toBN_nat_str toBN_digits bn_str_int del: of_nat_mult)
qed

lemma payment_of_ledger:
  "\<exists>price'. fromWei (nat_str p) = Inr price' \<and> toWei price' = Inr (nat_str p) \<and>
     calculatePayment price' (nat_str q) = Inr (nat_str (p * q))"
proof -
  obtain price' where f: "fromWei (nat_str p) = Inr price'"
    using fromWei_nat_str [of p] by blast
  then have t: "toWei price' = Inr (nat_str p)" by (rule toWei_fromWei)
  have "calculatePayment price' (nat_str q) = Inr (nat_str (p * digits_val (nat_str q)))"
    using t nat_str_nonempty nat_str_digits by (rule calculatePayment_scaled)
  with f t show ?thesis by (simp add: digits_val_nat_str)
qed

text \<open>
  C1. For a price written as a decimal number, a non-empty whole part \<open>w\<close> and at most 18
  fractional digits \<open>f\<close> (a price in minor units of an 18-decimal currency), and a
  quantity written in decimal digits, \<open>calculatePayment\<close> returns the decimal string of
  exactly \<open>scaleToMinorUnits\<close> of the price times the quantity. The result is a function
  of its arguments, computed on unbounded integers; no float occurs.
\<close>

theorem calculatePayment_exact:
  assumes "w \<noteq> []" and "list_all is_digit w" and "list_all is_digit f" and "length f \<le> 18"
    and "q \<noteq> []" and "list_all is_digit q"
  shows "calculatePayment (decimal w f) q = Inr (nat_str (scaleToMinorUnits w f * digits_val q))"
  using toWei_decimal [OF assms(1-4)] assms(5,6) by (rule calculatePayment_scaled)

theorem calculatePayment_exact_witness:
  "calculatePayment ''1.5'' ''1000000'' = Inr ''1500000000000000000000000'' \<and>
   (2::nat) ^ 53 < 1500000000000000000000000"
  using calculatePayment_exact [of "''1''" "''5''" "''1000000''"]
  by (simp add: decimal_def scaleToMinorUnits_def digits_eval nat_str_eval)

text \<open>
  C10. For every unsigned integer price \<open>p\<close> of the ledger, delivered as its decimal
  string, \<open>fromWei\<close> followed by \<open>toWei\<close> gives the string of \<open>p\<close> again, so that
  \<open>calculatePayment\<close> on the price in major units and a quantity \<open>q\<close> returns \<open>p * q\<close>.
\<close>

theorem fromWei_toWei_roundtrip:
  "(case fromWei (nat_str p) of Inl e \<Rightarrow> Inl e | Inr price' \<Rightarrow> toWei price') = Inr (nat_str p) \<and>
   (case fromWei (nat_str p) of Inl e \<Rightarrow> Inl e | Inr price' \<Rightarrow> calculatePayment price' (nat_str q))
     = Inr (nat_str (p * q))"
proof -
  obtain price' where "fromWei (nat_str p) = Inr price'" "toWei price' = Inr (nat_str p)"
    "calculatePayment price' (nat_str q) = Inr (nat_str (p * q))"
    using payment_of_ledger [of p q] by blast
  then show ?thesis by simp
qed

subsection \<open>handleSubmit\<close>

lemmas sample_eval =
  sample_product_def empty_product_def sample_method_def sample_names_def sample_table_def
  sample_contract_def sample_browser_def loaded_state_def no_estimate_def rejecting_def
  first_account_def

lemmas parseInt_eval =
  parseInt_def is_space_def is_digit_unit_def units_val_def number_of_def round_double_def
  code_units_def Let_def

lemma handleSubmit_try_valid:
  assumes "parseInt (id' s) = Some productId" and "supplyChain s = Some c"
    and "methods c methodName = Some method" and "MedicineStock c productId = Inr product"
    and "requestAccounts w = Inr accounts"
  shows "handleSubmit_try w s methodName =
     (send method productId
        \<lparr>from' = first_account accounts,
         gas = (case estimateGas method productId (first_account accounts) of
                  Inr g \<Rightarrow> g | Inl e \<Rightarrow> 3000000),
         value' = nat_str (price product * quantity product)\<rparr>,
      [Call ''MedicineStock'' [productId], RequestAccounts,
       EstimateGas methodName productId (first_account accounts)] @
      (case estimateGas method productId (first_account accounts) of
         Inr g \<Rightarrow> [] | Inl e \<Rightarrow> [ConsoleError ''Gas estimation failed:'' e]) @
      [Send methodName productId
         \<lparr>from' = first_account accounts,
          gas = (case estimateGas method productId (first_account accounts) of
                   Inr g \<Rightarrow> g | Inl e \<Rightarrow> 3000000),
          value' = nat_str (price product * quantity product)\<rparr>])"
proof -
  obtain price' where "fromWei (nat_str (price product)) = Inr price'"
    and "calculatePayment price' (nat_str (quantity product)) = Inr (nat_str (price product * quantity product))"
    using payment_of_ledger [of "price product" "quantity product"] by blast
  with assms show ?thesis by (simp add: handleSubmit_try_def Let_def)
qed

lemma handleSubmit_try_effects:
  "e \<in> set (snd (handleSubmit_try w s m)) \<Longrightarrow> \<not> is_alert e \<and> (is_call e \<longrightarrow> (\<exists>i. e = Call ''MedicineStock'' [i]))"
  by (auto simp: handleSubmit_try_def Let_def split: option.splits sum.splits)

lemma handleSubmit_state:
  "fst (handleSubmit w s m) =
     (case fst (handleSubmit_try w s m) of
        Inr result \<Rightarrow> s\<lparr>error := [], id' := []\<rparr>
      | Inl e \<Rightarrow> s\<lparr>error := ''Error in '' @ m @ '': '' @ message e\<rparr>)"
  by (simp add: handleSubmit_def split: prod.splits sum.splits)

lemma handleSubmit_effects:
  "snd (handleSubmit w s m) =
     snd (handleSubmit_try w s m) @
     (case fst (handleSubmit_try w s m) of
        Inr result \<Rightarrow>
          [ConsoleLog (''Successfully called '' @ m @ '' with result:'') result,
           Alert (''Successfully called '' @ m @ '' with result: '' @ transactionHash result)]
      | Inl e \<Rightarrow> [ConsoleError (''Error in '' @ m @ '':'') e])"
  by (simp add: handleSubmit_def split: prod.splits sum.splits)

lemma handleSubmit_try_snapshot:
  "handleSubmit_try w (s\<lparr>medData := md, medStage := ms\<rparr>) m = handleSubmit_try w s m"
  by (simp add: handleSubmit_try_def cong: option.case_cong)

lemma handleSubmit_try_invalid_id:
  "handleSubmit_try w s m = (Inl (Error ''Invalid Product ID''), []) \<longleftrightarrow> parseInt (id' s) = None"
  by (auto simp: handleSubmit_try_def Let_def split: option.splits sum.splits)


text \<open>
  C2, as the code has it. \<open>handleSubmit\<close> rejects the id exactly when \<open>parseInt\<close> reads no
  number from it (after the leading white space that JavaScript skips, Unicode spaces
  included, and an optional sign no decimal digit follows):
  then it fails with \<^verbatim>\<open>Invalid Product ID\<close> and calls neither the contract nor the
  wallet. An id that parses, zero and negative numbers included, is not rejected by
  this check.
\<close>

theorem invalid_product_id:
  "(handleSubmit_try w s m = (Inl (Error ''Invalid Product ID''), []) \<longleftrightarrow> parseInt (id' s) = None) \<and>
   (parseInt (id' s) = None \<longrightarrow>
      handleSubmit w s m =
        (s\<lparr>error := ''Error in '' @ m @ '': Invalid Product ID''\<rparr>,
         [ConsoleError (''Error in '' @ m @ '':'') (Error ''Invalid Product ID'')]))"
proof (intro conjI impI)
  show "handleSubmit_try w s m = (Inl (Error ''Invalid Product ID''), []) \<longleftrightarrow> parseInt (id' s) = None"
    by (rule handleSubmit_try_invalid_id)
next
  assume "parseInt (id' s) = None"
  then have "handleSubmit_try w s m = (Inl (Error ''Invalid Product ID''), [])"
    by (simp add: handleSubmit_try_invalid_id)
  then show "handleSubmit w s m =
        (s\<lparr>error := ''Error in '' @ m @ '': Invalid Product ID''\<rparr>,
         [ConsoleError (''Error in '' @ m @ '':'') (Error ''Invalid Product ID'')])"
    by (simp add: handleSubmit_def)
qed

theorem invalid_product_id_witness:
  "parseInt (code_units ''abc'') = None \<and>
   handleSubmit sample_browser (loaded_state ''abc'') ''startShipping'' =
     ((loaded_state ''abc'')\<lparr>error := ''Error in startShipping: Invalid Product ID''\<rparr>,
      [ConsoleError ''Error in startShipping:'' (Error ''Invalid Product ID'')])"
proof -
  have "parseInt (id' (loaded_state ''abc'')) = None"
    by (simp add: loaded_state_def parseInt_eval)
  then show ?thesis
    using invalid_product_id [of sample_browser "loaded_state ''abc''" "''startShipping''"]
    by (simp add: loaded_state_def)
qed

text \<open>
  C2 as stated fails: the id \<^verbatim>\<open>0\<close> is not positive, \<open>parseInt\<close> reads the number 0 from
  it, and \<open>handleSubmit\<close> goes on to read product 0 and to send the transaction.
\<close>

theorem nonpositive_id_counterexample:
  "parseInt (code_units ''0'') = Some (Num 0) \<and>
   filter is_write (snd (handleSubmit sample_browser (loaded_state ''0'') ''startManufacturing'')) =
     [Send ''startManufacturing'' (Num 0) \<lparr>from' = Some ''0xA1'', gas = 90000, value' = ''0''\<rparr>] \<and>
   error (fst (handleSubmit sample_browser (loaded_state ''0'') ''startManufacturing'')) = []"
proof -
  have p: "parseInt (code_units ''0'') = Some (Num 0)" by (simp add: parseInt_eval)
  have "handleSubmit_try sample_browser (loaded_state ''0'') ''startManufacturing'' =
     (Inr \<lparr>transactionHash = ''0x5e''\<rparr>,
      [Call ''MedicineStock'' [Num 0], RequestAccounts,
       EstimateGas ''startManufacturing'' (Num 0) (Some ''0xA1''),
       Send ''startManufacturing'' (Num 0) \<lparr>from' = Some ''0xA1'', gas = 90000, value' = ''0''\<rparr>])"
    using handleSubmit_try_valid [of "loaded_state ''0''" "Num 0" sample_contract "''startManufacturing''"
        sample_method empty_product sample_browser "[''0xA1'']"] p
    by (simp add: sample_eval nat_str_eval)
  with p show ?thesis by (simp add: handleSubmit_state handleSubmit_effects)
qed

text \<open>
  C3. When the \<^verbatim>\<open>try\<close> block of \<open>handleSubmit\<close> fails, at whichever step and with
  whichever exception \<open>e\<close>, the state afterwards is the state before with only the error
  message set, to \<^verbatim>\<open>Error in <methodName>: <message of e>\<close>: \<^verbatim>\<open>medData\<close> and
  \<^verbatim>\<open>medStage\<close> are as they were, and no alert is shown.
\<close>

theorem failed_submit_keeps_snapshot:
  assumes "fst (handleSubmit_try w s m) = Inl e"
  shows "fst (handleSubmit w s m) = s\<lparr>error := ''Error in '' @ m @ '': '' @ message e\<rparr> \<and>
     medData (fst (handleSubmit w s m)) = medData s \<and>
     medStage (fst (handleSubmit w s m)) = medStage s \<and>
     filter is_alert (snd (handleSubmit w s m)) = []"
proof -
  have "filter is_alert (snd (handleSubmit_try w s m)) = []"
    using handleSubmit_try_effects [of _ w s m] by (auto simp: filter_empty_conv)
  with assms show ?thesis by (simp add: handleSubmit_state handleSubmit_effects)
qed

theorem failed_submit_keeps_snapshot_witness:
  "fst (handleSubmit sample_browser ((loaded_state ''1'')\<lparr>supplyChain := Some rejecting\<rparr>) ''startShipping'') =
     (loaded_state ''1'')\<lparr>supplyChain := Some rejecting,
        error := ''Error in startShipping: User denied transaction signature''\<rparr> \<and>
   medData (fst (handleSubmit sample_browser ((loaded_state ''1'')\<lparr>supplyChain := Some rejecting\<rparr>) ''startShipping'')) =
     [(1, sample_product)] \<and>
   filter is_alert (snd (handleSubmit sample_browser ((loaded_state ''1'')\<lparr>supplyChain := Some rejecting\<rparr>) ''startShipping'')) = []"
proof -
  have p: "parseInt (code_units ''1'') = Some (Num 1)" by (simp add: parseInt_eval)
  have "fst (handleSubmit_try sample_browser ((loaded_state ''1'')\<lparr>supplyChain := Some rejecting\<rparr>) ''startShipping'') =
      Inl (Error ''User denied transaction signature'')"
    using handleSubmit_try_valid [of "(loaded_state ''1'')\<lparr>supplyChain := Some rejecting\<rparr>" "Num 1" rejecting
        "''startShipping''" "sample_method\<lparr>send := (\<lambda>i options. Inl (Error ''User denied transaction signature''))\<rparr>"
        sample_product sample_browser "[''0xA1'']"] p
    by (simp add: sample_eval)
  from failed_submit_keeps_snapshot [OF this] show ?thesis
    by (simp add: loaded_state_def)
qed

text \<open>
  C4. When the id parses, the method exists, the product is read and the wallet answers,
  a failed gas estimate does not end the submission: the failure is logged to the
  console, \<^verbatim>\<open>send\<close> is called with the gas limit 3000000, and the outcome of
  \<open>handleSubmit\<close> is the outcome of that \<^verbatim>\<open>send\<close> alone.
\<close>

theorem gas_estimate_fallback:
  assumes "parseInt (id' s) = Some productId" and "supplyChain s = Some c"
    and "methods c m = Some method" and "MedicineStock c productId = Inr product"
    and "requestAccounts w = Inr accounts"
    and "estimateGas method productId (first_account accounts) = Inl e"
  shows "handleSubmit_try w s m =
     (send method productId
        \<lparr>from' = first_account accounts, gas = 3000000,
         value' = nat_str (price product * quantity product)\<rparr>,
      [Call ''MedicineStock'' [productId], RequestAccounts,
       EstimateGas m productId (first_account accounts),
       ConsoleError ''Gas estimation failed:'' e,
       Send m productId
         \<lparr>from' = first_account accounts, gas = 3000000,
          value' = nat_str (price product * quantity product)\<rparr>]) \<and>
     error (fst (handleSubmit w s m)) =
       (case send method productId
          \<lparr>from' = first_account accounts, gas = 3000000,
           value' = nat_str (price product * quantity product)\<rparr> of
          Inr result \<Rightarrow> []
        | Inl e' \<Rightarrow> ''Error in '' @ m @ '': '' @ message e')"
proof -
  have t: "handleSubmit_try w s m =
     (send method productId
        \<lparr>from' = first_account accounts, gas = 3000000,
         value' = nat_str (price product * quantity product)\<rparr>,
      [Call ''MedicineStock'' [productId], RequestAccounts,
       EstimateGas m productId (first_account accounts),
       ConsoleError ''Gas estimation failed:'' e,
       Send m productId
         \<lparr>from' = first_account accounts, gas = 3000000,
          value' = nat_str (price product * quantity product)\<rparr>])"
    using handleSubmit_try_valid [OF assms(1-5)] assms(6) by simp
  then show ?thesis by (simp add: handleSubmit_state split: sum.splits)
qed

theorem gas_estimate_fallback_witness:
  "handleSubmit_try sample_browser ((loaded_state ''1'')\<lparr>supplyChain := Some no_estimate\<rparr>) ''startDistribution'' =
     (Inr \<lparr>transactionHash = ''0x5e''\<rparr>,
      [Call ''MedicineStock'' [Num 1], RequestAccounts,
       EstimateGas ''startDistribution'' (Num 1) (Some ''0xA1''),
       ConsoleError ''Gas estimation failed:'' (Error ''execution reverted''),
       Send ''startDistribution'' (Num 1)
         \<lparr>from' = Some ''0xA1'', gas = 3000000, value' = ''10000000000000000000''\<rparr>]) \<and>
   error (fst (handleSubmit sample_browser ((loaded_state ''1'')\<lparr>supplyChain := Some no_estimate\<rparr>) ''startDistribution'')) = []"
proof -
  have p: "parseInt (code_units ''1'') = Some (Num 1)" by (simp add: parseInt_eval)
  show ?thesis
    using gas_estimate_fallback [of "(loaded_state ''1'')\<lparr>supplyChain := Some no_estimate\<rparr>" "Num 1" no_estimate
        "''startDistribution''" "sample_method\<lparr>estimateGas := (\<lambda>i account. Inl (Error ''execution reverted''))\<rparr>"
        sample_product sample_browser "[''0xA1'']" "Error ''execution reverted''"] p
    by (simp add: sample_eval nat_str_eval)
qed



text \<open>
  C7. For a submission whose id parses, whose method exists and whose wallet answers,
  the product is read from the contract at submission time, and the one \<^verbatim>\<open>send\<close> carries
  as its value exactly the price times the quantity of the product read, in minor
  units. What \<^verbatim>\<open>medData\<close> and \<^verbatim>\<open>medStage\<close> hold makes no difference to the calls.
\<close>

theorem payment_from_ledger:
  assumes "parseInt (id' s) = Some productId" and "supplyChain s = Some c"
    and "methods c m = Some method" and "MedicineStock c productId = Inr product"
    and "requestAccounts w = Inr accounts"
  shows "take 1 (snd (handleSubmit w s m)) = [Call ''MedicineStock'' [productId]] \<and>
     filter is_write (snd (handleSubmit w s m)) =
       [Send m productId
          \<lparr>from' = first_account accounts,
           gas = (case estimateGas method productId (first_account accounts) of
                    Inr g \<Rightarrow> g | Inl e \<Rightarrow> 3000000),
           value' = nat_str (price product * quantity product)\<rparr>] \<and>
     snd (handleSubmit w (s\<lparr>medData := md, medStage := ms\<rparr>) m) = snd (handleSubmit w s m)"
proof -
  note t = handleSubmit_try_valid [OF assms]
  have "take 1 (snd (handleSubmit w s m)) = [Call ''MedicineStock'' [productId]]"
    by (simp add: handleSubmit_effects t)
  moreover have "filter is_write (snd (handleSubmit w s m)) =
       [Send m productId
          \<lparr>from' = first_account accounts,
           gas = (case estimateGas method productId (first_account accounts) of
                    Inr g \<Rightarrow> g | Inl e \<Rightarrow> 3000000),
           value' = nat_str (price product * quantity product)\<rparr>]"
    by (simp add: handleSubmit_effects t split: sum.splits)
  moreover have "snd (handleSubmit w (s\<lparr>medData := md, medStage := ms\<rparr>) m) = snd (handleSubmit w s m)"
    by (simp only: handleSubmit_effects handleSubmit_try_snapshot)
  ultimately show ?thesis by simp
qed

theorem payment_from_ledger_witness:
  "price sample_product = 2000000000000000000 \<and> quantity sample_product = 5 \<and>
   take 1 (snd (handleSubmit sample_browser (loaded_state ''1'') ''startManufacturing'')) =
     [Call ''MedicineStock'' [Num 1]] \<and>
   filter is_write (snd (handleSubmit sample_browser (loaded_state ''1'') ''startManufacturing'')) =
     [Send ''startManufacturing'' (Num 1)
        \<lparr>from' = Some ''0xA1'', gas = 90000, value' = ''10000000000000000000''\<rparr>] \<and>
   snd (handleSubmit sample_browser
          ((loaded_state ''1'')\<lparr>medData := [(1, sample_product\<lparr>price := 1\<rparr>)], medStage := []\<rparr>)
          ''startManufacturing'') =
     snd (handleSubmit sample_browser (loaded_state ''1'') ''startManufacturing'')"
proof -
  have p: "parseInt (id' (loaded_state ''1'')) = Some (Num 1)" by (simp add: loaded_state_def parseInt_eval)
  have c: "supplyChain (loaded_state ''1'') = Some sample_contract" by (simp add: loaded_state_def)
  have m: "methods sample_contract ''startManufacturing'' = Some sample_method" by (simp add: sample_eval)
  have r: "MedicineStock sample_contract (Num 1) = Inr sample_product" by (simp add: sample_eval)
  have a: "requestAccounts sample_browser = Inr [''0xA1'']" by (simp add: sample_eval)
  from payment_from_ledger [OF p c m r a, where md = "[(1, sample_product\<lparr>price := 1\<rparr>)]" and ms = "[]"]
  show ?thesis
    by (simp add: sample_product_def sample_method_def first_account_def nat_str_eval)
qed

text \<open>
  C9. \<open>handleSubmit\<close> changes two fields of the state at most: on success the id field is
  emptied and the error message is empty; on failure only the error message is set. In
  both cases \<^verbatim>\<open>medData\<close> and \<^verbatim>\<open>medStage\<close> stay as they were, and the catalogue is not
  read again: the only \<^verbatim>\<open>call()\<close> made is the read of the one product.
\<close>

theorem submit_changes_id_and_error_only:
  "fst (handleSubmit w s m) =
     (case fst (handleSubmit_try w s m) of
        Inr result \<Rightarrow> s\<lparr>error := [], id' := []\<rparr>
      | Inl e \<Rightarrow> s\<lparr>error := ''Error in '' @ m @ '': '' @ message e\<rparr>) \<and>
   medData (fst (handleSubmit w s m)) = medData s \<and>
   medStage (fst (handleSubmit w s m)) = medStage s \<and>
   (\<forall>e \<in> set (snd (handleSubmit w s m)). is_call e \<longrightarrow> (\<exists>i. e = Call ''MedicineStock'' [i])) \<and>
   GetAccounts \<notin> set (snd (handleSubmit w s m)) \<and> GetId \<notin> set (snd (handleSubmit w s m))"
proof -
  have st: "fst (handleSubmit w s m) =
     (case fst (handleSubmit_try w s m) of
        Inr result \<Rightarrow> s\<lparr>error := [], id' := []\<rparr>
      | Inl e \<Rightarrow> s\<lparr>error := ''Error in '' @ m @ '': '' @ message e\<rparr>)"
    by (rule handleSubmit_state)
  have calls: "\<forall>e \<in> set (snd (handleSubmit w s m)). is_call e \<longrightarrow> (\<exists>i. e = Call ''MedicineStock'' [i])"
    using handleSubmit_try_effects [of _ w s m]
    by (auto simp: handleSubmit_effects split: sum.splits)
  have "GetAccounts \<notin> set (snd (handleSubmit_try w s m))" "GetId \<notin> set (snd (handleSubmit_try w s m))"
    by (auto simp: handleSubmit_try_def Let_def split: option.splits sum.splits)
  then have other: "GetAccounts \<notin> set (snd (handleSubmit w s m))" "GetId \<notin> set (snd (handleSubmit w s m))"
    by (auto simp: handleSubmit_effects split: sum.splits)
  from st calls other show ?thesis by (simp split: sum.splits)
qed

theorem submit_changes_id_and_error_only_witness:
  "handleSubmit sample_browser (loaded_state ''1'') ''storeInWarehouse'' =
     ((loaded_state ''1'')\<lparr>error := [], id' := []\<rparr>,
      [Call ''MedicineStock'' [Num 1], RequestAccounts,
       EstimateGas ''storeInWarehouse'' (Num 1) (Some ''0xA1''),
       Send ''storeInWarehouse'' (Num 1) \<lparr>from' = Some ''0xA1'', gas = 90000, value' = ''10000000000000000000''\<rparr>,
       ConsoleLog ''Successfully called storeInWarehouse with result:'' \<lparr>transactionHash = ''0x5e''\<rparr>,
       Alert ''Successfully called storeInWarehouse with result: 0x5e''])"
proof -
  have p: "parseInt (code_units ''1'') = Some (Num 1)" by (simp add: parseInt_eval)
  have t: "handleSubmit_try sample_browser (loaded_state ''1'') ''storeInWarehouse'' =
     (Inr \<lparr>transactionHash = ''0x5e''\<rparr>,
      [Call ''MedicineStock'' [Num 1], RequestAccounts,
       EstimateGas ''storeInWarehouse'' (Num 1) (Some ''0xA1''),
       Send ''storeInWarehouse'' (Num 1) \<lparr>from' = Some ''0xA1'', gas = 90000, value' = ''10000000000000000000''\<rparr>])"
    using handleSubmit_try_valid [of "loaded_state ''1''" "Num 1" sample_contract "''storeInWarehouse''"
        sample_method sample_product sample_browser "[''0xA1'']"] p
    by (simp add: sample_eval nat_str_eval)
  have "fst (handleSubmit sample_browser (loaded_state ''1'') ''storeInWarehouse'') =
      (loaded_state ''1'')\<lparr>error := [], id' := []\<rparr>"
    using submit_changes_id_and_error_only [of sample_browser "loaded_state ''1''" "''storeInWarehouse''"] t
    by simp
  moreover have "snd (handleSubmit sample_browser (loaded_state ''1'') ''storeInWarehouse'') =
      [Call ''MedicineStock'' [Num 1], RequestAccounts,
       EstimateGas ''storeInWarehouse'' (Num 1) (Some ''0xA1''),
       Send ''storeInWarehouse'' (Num 1) \<lparr>from' = Some ''0xA1'', gas = 90000, value' = ''10000000000000000000''\<rparr>,
       ConsoleLog ''Successfully called storeInWarehouse with result:'' \<lparr>transactionHash = ''0x5e''\<rparr>,
       Alert ''Successfully called storeInWarehouse with result: 0x5e'']"
    by (simp add: handleSubmit_effects t)
  ultimately show ?thesis by (simp add: prod_eq_iff)
qed

subsection \<open>loadBlockchainData\<close>

lemma obj_set_last:
  assumes "\<forall>k' \<in> set (obj_keys obj). k' < k"
  shows "obj_set obj k v = obj @ [(k, v)]"
  using assms by (induction obj) (auto simp: obj_keys_def)

lemma load_loop_reads:
  assumes "\<forall>j. i < j \<and> j \<le> N \<longrightarrow>
      MedicineStock c (Num (int j)) = Inr (stock j) \<and> showStage c (Num (int j)) = Inr (stage j)"
    and "i \<le> N"
  shows "load_loop c N i (map (\<lambda>j. (j, stock j)) [1..<Suc i]) (map (\<lambda>j. (j, stage j)) [1..<Suc i]) =
     (Inr (map (\<lambda>j. (j, stock j)) [1..<Suc N], map (\<lambda>j. (j, stage j)) [1..<Suc N]),
      concat (map (\<lambda>j. [Call ''MedicineStock'' [Num (int j)], Call ''showStage'' [Num (int j)]]) [Suc i..<Suc N]))"
  using assms
proof (induction "N - i" arbitrary: i)
  case 0
  then have "i = N" by simp
  then show ?case by (simp add: load_loop.simps [of c N N])
next
  case (Suc d)
  then have lt: "i < N" and d: "d = N - Suc i" and le: "Suc i \<le> N" by simp_all
  have "i < Suc i \<and> Suc i \<le> N" using le by simp
  with Suc.prems(1) have reads: "MedicineStock c (Num (int (Suc i))) = Inr (stock (Suc i))"
    "showStage c (Num (int (Suc i))) = Inr (stage (Suc i))" by blast+
  have next_reads: "\<forall>j. Suc i < j \<and> j \<le> N \<longrightarrow>
      MedicineStock c (Num (int j)) = Inr (stock j) \<and> showStage c (Num (int j)) = Inr (stage j)"
    using Suc.prems(1) by simp
  have med: "obj_set (map (\<lambda>j. (j, stock j)) [1..<Suc i]) (Suc i) (stock (Suc i)) =
      map (\<lambda>j. (j, stock j)) [1..<Suc (Suc i)]"
    by (subst obj_set_last) (auto simp: obj_keys_def)
  have st: "obj_set (map (\<lambda>j. (j, stage j)) [1..<Suc i]) (Suc i) (stage (Suc i)) =
      map (\<lambda>j. (j, stage j)) [1..<Suc (Suc i)]"
    by (subst obj_set_last) (auto simp: obj_keys_def)
  have rest: "[Suc i..<Suc N] = Suc i # [Suc (Suc i)..<Suc N]"
    using lt by (simp add: upt_conv_Cons)
  note IH = Suc.hyps(1) [OF d next_reads le]
  let ?f = "\<lambda>j. [Call ''MedicineStock'' [Num (int j)], Call ''showStage'' [Num (int j)]]"
  let ?next = "load_loop c N (Suc i) (map (\<lambda>j. (j, stock j)) [1..<Suc (Suc i)])
      (map (\<lambda>j. (j, stage j)) [1..<Suc (Suc i)])"
  have s1: "i + 1 = Suc i" by simp
  have "load_loop c N i (map (\<lambda>j. (j, stock j)) [1..<Suc i]) (map (\<lambda>j. (j, stage j)) [1..<Suc i]) =
      (fst ?next, Call ''MedicineStock'' [Num (int (Suc i))] # Call ''showStage'' [Num (int (Suc i))] # snd ?next)"
    by (subst load_loop.simps) (simp only: s1 lt if_True Let_def reads sum.case med st)
  also have "\<dots> = (Inr (map (\<lambda>j. (j, stock j)) [1..<Suc N], map (\<lambda>j. (j, stage j)) [1..<Suc N]),
      Call ''MedicineStock'' [Num (int (Suc i))] # Call ''showStage'' [Num (int (Suc i))] #
      concat (map ?f [Suc (Suc i)..<Suc N]))"
    by (simp only: IH fst_conv snd_conv)
  also have "Call ''MedicineStock'' [Num (int (Suc i))] # Call ''showStage'' [Num (int (Suc i))] #
      concat (map ?f [Suc (Suc i)..<Suc N]) = concat (map ?f [Suc i..<Suc N])"
    by (simp only: rest list.map concat.simps append_Cons append_Nil)
  finally show ?case .
qed

lemma load_loop_all:
  assumes "\<forall>j. 1 \<le> j \<and> j \<le> N \<longrightarrow>
      MedicineStock c (Num (int j)) = Inr (stock j) \<and> showStage c (Num (int j)) = Inr (stage j)"
  shows "load_loop c N 0 [] [] =
     (Inr (map (\<lambda>j. (j, stock j)) [1..<Suc N], map (\<lambda>j. (j, stage j)) [1..<Suc N]),
      concat (map (\<lambda>j. [Call ''MedicineStock'' [Num (int j)], Call ''showStage'' [Num (int j)]]) [1..<Suc N]))"
proof -
  have "\<forall>j. 0 < j \<and> j \<le> N \<longrightarrow>
      MedicineStock c (Num (int j)) = Inr (stock j) \<and> showStage c (Num (int j)) = Inr (stage j)"
    using assms by (simp add: Suc_le_eq)
  from load_loop_reads [where i = 0, OF this] show ?thesis by simp
qed

lemma filter_is_call_reads:
  "filter is_call (concat (map (\<lambda>j. [Call ''MedicineStock'' [Num (int j)], Call ''showStage'' [Num (int j)]]) js)) =
     concat (map (\<lambda>j. [Call ''MedicineStock'' [Num (int j)], Call ''showStage'' [Num (int j)]]) js)"
  by (induction js) simp_all

text \<open>
  C5. When the contract is deployed on the network and reports the counter \<open>N\<close>, and the
  reads of the ids 1 to \<open>N\<close> answer, \<open>loadBlockchainData\<close> returns without exception after
  exactly \<open>N\<close> pairs of reads, product and then stage, for the ids 1, 2, ... \<open>N\<close> in this
  order; \<^verbatim>\<open>medData\<close> and \<^verbatim>\<open>medStage\<close> are replaced by what was read, with the keys
  1 to \<open>N\<close> in ascending order, whatever they held before. For \<open>N = 0\<close> both are empty.
\<close>

theorem loadBlockchainData_reads_in_order:
  assumes "getAccounts w = Inr accounts" and "getId w = Inr networkId"
    and "networks w networkId = Some c" and "medicineCtr c = Inr N"
    and "\<forall>j. 1 \<le> j \<and> j \<le> N \<longrightarrow>
      MedicineStock c (Num (int j)) = Inr (stock j) \<and> showStage c (Num (int j)) = Inr (stage j)"
  shows "fst (loadBlockchainData w s) = None \<and>
     filter is_call (snd (snd (loadBlockchainData w s))) =
       Call ''medicineCtr'' [] #
       concat (map (\<lambda>j. [Call ''MedicineStock'' [Num (int j)], Call ''showStage'' [Num (int j)]]) [1..<Suc N]) \<and>
     medData (fst (snd (loadBlockchainData w s))) = map (\<lambda>j. (j, stock j)) [1..<Suc N] \<and>
     medStage (fst (snd (loadBlockchainData w s))) = map (\<lambda>j. (j, stage j)) [1..<Suc N] \<and>
     obj_keys (medData (fst (snd (loadBlockchainData w s)))) = [1..<Suc N] \<and>
     render (fst (snd (loadBlockchainData w s))) = Catalog [1..<Suc N]"
proof -
  let ?reads = "concat (map (\<lambda>j. [Call ''MedicineStock'' [Num (int j)], Call ''showStage'' [Num (int j)]]) [1..<Suc N])"
  have "loadBlockchainData w s =
     (None,
      s\<lparr>loader := True, currentAccount := first_account accounts, supplyChain := Some c,
        medData := map (\<lambda>j. (j, stock j)) [1..<Suc N],
        medStage := map (\<lambda>j. (j, stage j)) [1..<Suc N], loader := False\<rparr>,
      [GetAccounts, GetId, Call ''medicineCtr'' []] @ ?reads)"
    by (simp add: loadBlockchainData_def Let_def assms(1-4) load_loop_all [OF assms(5)]
        del: upt_Suc One_nat_def)
  then show ?thesis
    by (simp add: filter_is_call_reads render_def obj_keys_def comp_def del: upt_Suc One_nat_def)
qed

theorem loadBlockchainData_reads_in_order_witness:
  "filter is_call (snd (snd (loadBlockchainData (ledger_of_count 3) initial_state))) =
     [Call ''medicineCtr'' [],
      Call ''MedicineStock'' [Num 1], Call ''showStage'' [Num 1],
      Call ''MedicineStock'' [Num 2], Call ''showStage'' [Num 2],
      Call ''MedicineStock'' [Num 3], Call ''showStage'' [Num 3]] \<and>
   obj_keys (medData (fst (snd (loadBlockchainData (ledger_of_count 3) initial_state)))) = [1, 2, 3] \<and>
   fst (loadBlockchainData (ledger_of_count 0) (loaded_state [])) = None \<and>
   medData (fst (snd (loadBlockchainData (ledger_of_count 0) (loaded_state [])))) = [] \<and>
   medStage (fst (snd (loadBlockchainData (ledger_of_count 0) (loaded_state [])))) = []"
proof -
  have three: "[Suc 0..<4] = [1, 2, 3]" by (simp add: upt_rec)
  have a: "getAccounts (ledger_of_count n) = Inr [''0xA1'']"
    and i: "getId (ledger_of_count n) = Inr 5777"
    and d: "networks (ledger_of_count n) 5777 = Some (sample_contract\<lparr>medicineCtr := Inr n\<rparr>)"
    and m: "medicineCtr (sample_contract\<lparr>medicineCtr := Inr n\<rparr>) = Inr n"
    and r: "\<forall>j. 1 \<le> j \<and> j \<le> n \<longrightarrow>
      MedicineStock (sample_contract\<lparr>medicineCtr := Inr n\<rparr>) (Num (int j)) =
        Inr (if j = 1 then sample_product else empty_product) \<and>
      showStage (sample_contract\<lparr>medicineCtr := Inr n\<rparr>) (Num (int j)) = Inr ''Medicine Ordered''"
    for n
    by (simp_all add: ledger_of_count_def sample_browser_def sample_contract_def)
  from loadBlockchainData_reads_in_order [OF a i d m r, of 3 initial_state]
    loadBlockchainData_reads_in_order [OF a i d m r, of 0 "loaded_state []"]
  show ?thesis by (simp add: three obj_keys_def)
qed

text \<open>
  C8. When the artifact has no contract for the connected network,
  \<open>loadBlockchainData\<close> reads nothing from a contract: it alerts that the contract is not
  deployed to the current network, once, and returns. \<^verbatim>\<open>loader\<close> stays set, so the
  component renders the loading notice and not the catalogue; \<^verbatim>\<open>medData\<close> and
  \<^verbatim>\<open>medStage\<close> are untouched.
\<close>

theorem contract_not_deployed:
  assumes "getAccounts w = Inr accounts" and "getId w = Inr networkId"
    and "networks w networkId = None"
  shows "loadBlockchainData w s =
     (None, s\<lparr>loader := True, currentAccount := first_account accounts\<rparr>,
      [GetAccounts, GetId, Alert ''The smart contract is not deployed to the current network'']) \<and>
     render (fst (snd (loadBlockchainData w s))) = Loading"
  using assms by (simp add: loadBlockchainData_def Let_def render_def)

theorem contract_not_deployed_witness:
  "loadBlockchainData other_network initial_state =
     (None, initial_state\<lparr>loader := True, currentAccount := Some ''0xA1''\<rparr>,
      [GetAccounts, GetId, Alert ''The smart contract is not deployed to the current network'']) \<and>
   render (fst (snd (loadBlockchainData other_network initial_state))) = Loading"
proof -
  have "getAccounts other_network = Inr [''0xA1'']" "getId other_network = Inr 1"
    "networks other_network 1 = None"
    by (simp_all add: other_network_def sample_browser_def)
  from contract_not_deployed [OF this, of initial_state] show ?thesis
    by (simp add: first_account_def render_def)
qed

end
